theory Spec2Isabelle
  imports Main "HOL-Library.Word"
begin

unbundle bit_operations_syntax

section \<open>The core of the node: process registry and router (node/core.go)\<close>

subsection \<open>Identifiers\<close>

type_synonym uint32 = "32 word"
type_synonym uint64 = "64 word"

text \<open>
  \<^verbatim>\<open>etf.Pid\<close>, as \<^verbatim>\<open>newPID\<close> builds it: the node name (an atom), the numeric id and the
  creation of the node.
\<close>

record Pid =
  Node :: string
  ID :: uint64
  Creation :: uint32

text \<open>
  Modelled from the spec: \<^verbatim>\<open>etf.Ref\<close> is declared in package etf, not in package
  node; a reference is the node name, the creation and three 32-bit words. \<^verbatim>\<open>MakeRef\<close>
  assigns \<^verbatim>\<open>ref.ID[0]\<close> and \<^verbatim>\<open>ref.ID[1]\<close> of a zero-valued \<^verbatim>\<open>etf.Ref\<close>, so the words
  are an array, here a list of length three. The fields carry the suffix \<open>_r\<close> because
  the names \<open>Node\<close>, \<open>ID\<close> and \<open>Creation\<close> belong to \<open>Pid\<close>.
\<close>

record Ref =
  Node_r :: string
  Creation_r :: uint32
  ID_r :: "uint32 list"

definition zeroRef :: Ref where
  "zeroRef = \<lparr>Node_r = '''', Creation_r = 0, ID_r = [0, 0, 0]\<rparr>"

text \<open>\<^verbatim>\<open>etf.Alias(c.MakeRef())\<close>: an alias is a reference under another type name.\<close>

type_synonym Alias = Ref

definition zeroPid :: Pid where
  "zeroPid = \<lparr>Node = '''', ID = 0, Creation = 0\<rparr>"

text \<open>\<^verbatim>\<open>gen.ProcessID\<close>, as \<^verbatim>\<open>RouteSendReg\<close> reads it: \<^verbatim>\<open>to.Name\<close> and \<^verbatim>\<open>to.Node\<close>.\<close>

record ProcessID =
  Name_p :: string
  Node_p :: string

subsection \<open>Errors (node/types.go)\<close>

text \<open>
  The error values of the \<^verbatim>\<open>var\<close> block of types.go, each a value of its own
  (\<^verbatim>\<open>ErrNameOwner\<close> and \<^verbatim>\<open>ErrAliasOwner\<close> carry the same text and are distinct values),
  and the error that \<^verbatim>\<open>RouteSend\<close> formats for a full mailbox, with the two pids it
  prints.
\<close>

datatype error =
    ErrAppAlreadyLoaded
  | ErrAppAlreadyStarted
  | ErrAppUnknown
  | ErrAppIsNotRunning
  | ErrNameUnknown
  | ErrNameOwner
  | ErrProcessBusy
  | ErrProcessUnknown
  | ErrProcessIncarnation
  | ErrProcessTerminated
  | ErrMonitorUnknown
  | ErrSenderUnknown
  | ErrBehaviorUnknown
  | ErrBehaviorGroupUnknown
  | ErrAliasUnknown
  | ErrAliasOwner
  | ErrNoRoute
  | ErrTaken
  | ErrTimeout
  | ErrFragmented
  | ErrUnsupported
  | WarningMailboxFull Pid Pid

subsection \<open>Channels and contexts of the Go runtime\<close>

text \<open>
  A buffered channel is its capacity and the queued values, oldest first; \<open>NilChan\<close> is
  the nil channel. \<open>try_send\<close> is the statement
  \<^verbatim>\<open>select { case ch <- x: default: ... }\<close>: the send happens when the buffer has room,
  the default branch (\<open>None\<close>) is taken otherwise, also for the nil channel, on which a
  send never proceeds.
\<close>

datatype 'a chan = NilChan | Chan nat "'a list"

fun try_send :: "'a chan \<Rightarrow> 'a \<Rightarrow> 'a chan option" where
  "try_send NilChan x = None"
| "try_send (Chan cap q) x = (if length q < cap then Some (Chan cap (q @ [x])) else None)"

text \<open>
  A cancellable context is the list of the cancel handles of itself and of its
  ancestors, newest first; the runtime keeps the set of the handles that were invoked.
  \<^verbatim>\<open>ctx.Err() != nil\<close> holds once one of the handles of the context was invoked.
\<close>

type_synonym token = nat
type_synonym "context" = "token list"

definition ctx_err :: "token set \<Rightarrow> context \<Rightarrow> bool" where
  "ctx_err cs cx = list_ex (\<lambda>t. t \<in> cs) cx"

subsection \<open>Processes and the core\<close>

type_synonym addr = nat

text \<open>
  The fields of \<^verbatim>\<open>process\<close> that the core reads or writes. \<open>exit\<close> is the closure that
  \<^verbatim>\<open>newProcess\<close> stores, given by the \<^verbatim>\<open>processContext\<close> it captures (\<open>None\<close> is the nil
  func); the process field \<^verbatim>\<open>aliases\<close> is \<open>aliases_p\<close> and \<^verbatim>\<open>context\<close> is \<open>context_p\<close>.
  The behavior, the environment, the parent, the group leader, the direct channel and
  the reply map take no part in the operations below.
\<close>

record 'm process =
  self :: Pid
  name :: string
  aliases_p :: "Alias list"
  mailBox :: "(Pid \<times> 'm) chan"
  gracefulExit :: "(Pid \<times> string) chan"
  context_p :: "context"
  kill :: token
  trapExit :: bool
  exit :: "context option"

text \<open>The zero value of \<^verbatim>\<open>process\<close>.\<close>

definition zeroProcess :: "'m process" where
  "zeroProcess = \<lparr>self = zeroPid, name = '''', aliases_p = [], mailBox = NilChan,
     gracefulExit = NilChan, context_p = [], kill = 0, trapExit = False, exit = None\<rparr>"

text \<open>
  The struct \<^verbatim>\<open>core\<close> with, below the line of \<open>processes\<close>, the memory it shares with
  the processes: \<open>heap\<close> gives the \<^verbatim>\<open>process\<close> behind every \<^verbatim>\<open>*process\<close> (the tables
  \<open>aliases\<close> and \<open>processes\<close> hold pointers, so two entries may name one process),
  \<open>cancelled\<close> is the set of invoked cancel handles, \<open>nextToken\<close> and \<open>nextAddr\<close> are the
  next fresh handle and the next fresh pointer.
\<close>

record 'm core =
  ctx :: "context"
  stop :: token
  nextPID :: uint64
  uniqID :: uint64
  nodename :: string
  creation :: uint32
  names :: "string \<rightharpoonup> Pid"
  aliases :: "Alias \<rightharpoonup> addr"
  processes :: "uint64 \<rightharpoonup> addr"
  heap :: "addr \<Rightarrow> 'm process"
  cancelled :: "token set"
  nextToken :: token
  nextAddr :: addr

definition startPID :: uint64 where
  "startPID = 1000"

text \<open>\<^verbatim>\<open>context.WithCancel(parent)\<close>: the child context, its cancel handle, the new state.\<close>

definition WithCancel :: "'m core \<Rightarrow> context \<Rightarrow> context \<times> token \<times> 'm core" where
  "WithCancel c parent =
     (nextToken c # parent, nextToken c, c\<lparr>nextToken := Suc (nextToken c)\<rparr>)"

text \<open>Invoking a cancel handle.\<close>

definition cancel :: "'m core \<Rightarrow> token \<Rightarrow> 'm core" where
  "cancel c t = c\<lparr>cancelled := insert t (cancelled c)\<rparr>"

text \<open>
  \<^verbatim>\<open>newCore\<close>. \<open>now\<close> is \<^verbatim>\<open>time.Now().UnixNano()\<close>, an int64 that the conversion to uint64
  reads modulo \<open>2 ^ 64\<close>; \<open>opt_creation\<close> is \<^verbatim>\<open>options.Creation\<close>; \<open>network_err\<close> is the
  error of \<^verbatim>\<open>newNetwork\<close>, which core.go calls and does not define; \<open>cs\<close> and \<open>tok\<close>
  are the invoked handles and the next fresh handle of the runtime. When \<^verbatim>\<open>newNetwork\<close>
  fails, \<^verbatim>\<open>corestop()\<close> cancels a context that nothing else holds and no core is
  returned.
\<close>

definition newCore ::
  "context \<Rightarrow> string \<Rightarrow> uint32 \<Rightarrow> int \<Rightarrow> error option \<Rightarrow> token set \<Rightarrow> token \<Rightarrow> error + 'm core" where
  "newCore cx nodename' opt_creation now network_err cs tok =
     (let c = \<lparr>ctx = cx, stop = 0, nextPID = startPID, uniqID = word_of_int now,
                nodename = nodename', creation = opt_creation,
                names = Map.empty, aliases = Map.empty, processes = Map.empty,
                heap = (\<lambda>_. zeroProcess), cancelled = cs, nextToken = tok, nextAddr = 0\<rparr>;
          (corectx, corestop, c) = WithCancel c (ctx c);
          c = c\<lparr>stop := corestop\<rparr>;
          c = c\<lparr>ctx := corectx\<rparr>
      in case network_err of
           Some err \<Rightarrow> Inl err
         | None \<Rightarrow> Inr c)"

subsection \<open>Identifier mint\<close>

definition newPID :: "'m core \<Rightarrow> Pid \<times> 'm core" where
  "newPID c =
     (let i = nextPID c + 1
      in (\<lparr>Node = nodename c, ID = i, Creation = creation c\<rparr>, c\<lparr>nextPID := i\<rparr>))"

text \<open>
  \<^verbatim>\<open>MakeRef\<close>. \<^verbatim>\<open>atomic.AddUint64\<close> returns the new value of the counter; \<^verbatim>\<open>(2 << 17) - 1\<close>
  is a constant of type uint64; \<^verbatim>\<open>uint32(...)\<close> keeps the low 32 bits.
\<close>

definition MakeRef :: "'m core \<Rightarrow> Ref \<times> 'm core" where
  "MakeRef c =
     (let ref = zeroRef;
          ref = ref\<lparr>Node_r := nodename c\<rparr>;
          ref = ref\<lparr>Creation_r := creation c\<rparr>;
          nt = uniqID c + 1;
          c = c\<lparr>uniqID := nt\<rparr>;
          ref = ref\<lparr>ID_r := (ID_r ref)[0 := ucast (nt AND (push_bit 17 2 - 1))]\<rparr>;
          ref = ref\<lparr>ID_r := (ID_r ref)[1 := ucast (drop_bit 46 nt)]\<rparr>
      in (ref, c))"

subsection \<open>Registry\<close>

definition IsAlias :: "'m core \<Rightarrow> Alias \<Rightarrow> bool" where
  "IsAlias c alias = (aliases c alias \<noteq> None)"

definition newAlias :: "'m core \<Rightarrow> addr \<Rightarrow> (error + Alias) \<times> 'm core" where
  "newAlias c p =
     (if processes c (ID (self (heap c p))) = None then (Inl ErrProcessUnknown, c)
      else
        let (ref, c) = MakeRef c;
            alias = ref;
            c = c\<lparr>aliases := (aliases c)(alias \<mapsto> p)\<rparr>;
            c = c\<lparr>heap := (heap c)(p := (heap c p)\<lparr>aliases_p := aliases_p (heap c p) @ [alias]\<rparr>)\<rparr>
        in (Inr alias, c))"

text \<open>
  The loop \<^verbatim>\<open>for i := range p.aliases\<close> of \<^verbatim>\<open>deleteAlias\<close>: the first index, counted
  from \<open>i\<close>, at which the list holds the alias.
\<close>

fun find_alias :: "Alias \<Rightarrow> Alias list \<Rightarrow> nat \<Rightarrow> nat option" where
  "find_alias alias [] i = None"
| "find_alias alias (x # xs) i = (if alias \<noteq> x then find_alias alias xs (Suc i) else Some i)"

text \<open>
  \<^verbatim>\<open>deleteAlias\<close>. \<open>owner\<close> and the \<open>p\<close> found in the alias table are pointers; the
  owner check compares the pids behind them. The last branch is the one the source
  marks "shouldn't reach this code".
\<close>

definition deleteAlias :: "'m core \<Rightarrow> addr \<Rightarrow> Alias \<Rightarrow> error option \<times> 'm core" where
  "deleteAlias c owner alias =
     (case aliases c alias of
        None \<Rightarrow> (Some ErrAliasUnknown, c)
      | Some p \<Rightarrow>
          if processes c (ID (self (heap c owner))) = None then (Some ErrProcessUnknown, c)
          else if self (heap c p) \<noteq> self (heap c owner) then (Some ErrAliasOwner, c)
          else
            (case find_alias alias (aliases_p (heap c p)) 0 of
               Some i \<Rightarrow>
                 let c = c\<lparr>aliases := (aliases c)(alias := None)\<rparr>;
                     as = aliases_p (heap c p);
                     as = as[i := as ! 0];
                     as = drop 1 as
                 in (None, c\<lparr>heap := (heap c)(p := (heap c p)\<lparr>aliases_p := as\<rparr>)\<rparr>)
             | None \<Rightarrow> (Some ErrAliasUnknown, c\<lparr>aliases := (aliases c)(alias := None)\<rparr>)))"

text \<open>
  Modelled from the spec: \<^verbatim>\<open>DefaultProcessMailboxSize\<close> is declared neither in core.go
  nor in types.go; the default mailbox capacity is 100.
\<close>

definition DefaultProcessMailboxSize :: nat where
  "DefaultProcessMailboxSize = 100"

text \<open>
  The fields of \<^verbatim>\<open>processOptions\<close> that \<^verbatim>\<open>newProcess\<close> reads for the channels and the
  context: \<^verbatim>\<open>opts.MailboxSize\<close> and \<^verbatim>\<open>opts.Context\<close> (\<open>None\<close> is nil).
\<close>

record processOptions =
  MailboxSize :: nat
  Context :: "context option"

text \<open>
  \<^verbatim>\<open>newProcess\<close>. The process is allocated at \<open>nextAddr\<close>; when the name is taken the
  pid, the contexts and the allocation stay consumed and no table changes.
\<close>

definition newProcess ::
  "'m core \<Rightarrow> string \<Rightarrow> processOptions \<Rightarrow> (error + addr) \<times> 'm core" where
  "newProcess c name' opts =
     (let mailboxSize = (if MailboxSize opts > 0 then MailboxSize opts
                         else DefaultProcessMailboxSize);
          parentContext = ctx c;
          (processContext, kill', c) = WithCancel c parentContext;
          (processContext, c) =
             (case Context opts of
                None \<Rightarrow> (processContext, c)
              | Some octx \<Rightarrow> (let (pc, _, c') = WithCancel c octx in (pc, c')));
          (pid, c) = newPID c;
          a = nextAddr c;
          c = c\<lparr>heap := (heap c)(a :=
                 \<lparr>self = pid, name = name', aliases_p = [],
                  mailBox = Chan mailboxSize [], gracefulExit = Chan mailboxSize [],
                  context_p = processContext, kill = kill', trapExit = False,
                  exit = Some processContext\<rparr>),
               nextAddr := Suc a\<rparr>
      in if name' \<noteq> '''' \<and> names c name' \<noteq> None then (Inl ErrTaken, c)
         else
           let c = (if name' \<noteq> '''' then c\<lparr>names := (names c)(name' \<mapsto> self (heap c a))\<rparr>
                    else c);
               c = c\<lparr>processes := (processes c)(ID (self (heap c a)) \<mapsto> a)\<rparr>
           in (Inr a, c))"

text \<open>
  The closure \<^verbatim>\<open>process.exit\<close> of \<^verbatim>\<open>newProcess\<close>, with the variables it captures as
  arguments: the pointer \<open>process\<close> and \<open>processContext\<close>.
\<close>

definition process_exit ::
  "'m core \<Rightarrow> addr \<Rightarrow> context \<Rightarrow> Pid \<Rightarrow> string \<Rightarrow> error option \<times> 'm core" where
  "process_exit c process processContext from reason =
     (if ctx_err (cancelled c) processContext then (Some ErrProcessUnknown, c)
      else
        let ex = (from, reason)
        in case try_send (gracefulExit (heap c process)) ex of
             None \<Rightarrow> (Some ErrProcessBusy, c)
           | Some ch \<Rightarrow>
               let c = c\<lparr>heap := (heap c)(process := (heap c process)\<lparr>gracefulExit := ch\<rparr>)\<rparr>;
                   c = (if \<not> trapExit (heap c process) then cancel c (kill (heap c process))
                        else c)
               in (None, c))"

text \<open>
  \<^verbatim>\<open>deleteProcess\<close>. The second loop deletes the names registered with the pid of the
  process; the third loop ranges over the whole alias table and deletes every key it
  finds.
\<close>

definition deleteProcess :: "'m core \<Rightarrow> Pid \<Rightarrow> 'm core" where
  "deleteProcess c pid =
     (case processes c (ID pid) of
        None \<Rightarrow> c
      | Some p \<Rightarrow>
          let c = c\<lparr>processes := (processes c)(ID pid := None)\<rparr>;
              c = (if name (heap c p) \<noteq> '''' then c\<lparr>names := (names c)(name (heap c p) := None)\<rparr>
                   else c);
              c = c\<lparr>names := (\<lambda>name'. case names c name' of
                                         None \<Rightarrow> None
                                       | Some pid' \<Rightarrow> if self (heap c p) = pid' then None
                                                     else Some pid')\<rparr>;
              c = c\<lparr>aliases := (\<lambda>alias. case aliases c alias of
                                          None \<Rightarrow> None
                                        | Some _ \<Rightarrow> None)\<rparr>
          in c)"

definition registerName :: "'m core \<Rightarrow> string \<Rightarrow> Pid \<Rightarrow> error option \<times> 'm core" where
  "registerName c name' pid =
     (if names c name' \<noteq> None then (Some ErrTaken, c)
      else (None, c\<lparr>names := (names c)(name' \<mapsto> pid)\<rparr>))"

definition unregisterName :: "'m core \<Rightarrow> string \<Rightarrow> error option \<times> 'm core" where
  "unregisterName c name' =
     (if names c name' \<noteq> None then (None, c\<lparr>names := (names c)(name' := None)\<rparr>)
      else (Some ErrNameUnknown, c))"

subsection \<open>Lookups\<close>

text \<open>
  Modelled from the spec: the method \<^verbatim>\<open>IsAlive\<close> of \<^verbatim>\<open>process\<close> is defined neither in
  core.go nor in types.go; a process is live until its context is cancelled.
\<close>

definition IsAlive :: "'m core \<Rightarrow> addr \<Rightarrow> bool" where
  "IsAlive c p = (\<not> ctx_err (cancelled c) (context_p (heap c p)))"

definition ProcessByPid :: "'m core \<Rightarrow> Pid \<Rightarrow> addr option" where
  "ProcessByPid c pid =
     (case processes c (ID pid) of
        Some p \<Rightarrow> if IsAlive c p then Some p else None
      | None \<Rightarrow> None)"

definition ProcessByAlias :: "'m core \<Rightarrow> Alias \<Rightarrow> addr option" where
  "ProcessByAlias c alias =
     (case aliases c alias of
        Some p \<Rightarrow> if IsAlive c p then Some p else None
      | None \<Rightarrow> None)"

definition ProcessByName :: "'m core \<Rightarrow> string \<Rightarrow> addr option" where
  "ProcessByName c name' =
     (if name' \<noteq> '''' then
        (case names c name' of
           Some p \<Rightarrow> ProcessByPid c p
         | None \<Rightarrow> None)
      else ProcessByPid c zeroPid)"

subsection \<open>Router\<close>

text \<open>
  \<^verbatim>\<open>ConnectionInterface\<close> (types.go), the three methods the router calls, and
  \<^verbatim>\<open>GetConnection\<close> of the network, which core.go calls and does not define and which
  is an argument of the router functions. What they do to the peer is not part of the core.
\<close>

record 'm ConnectionInterface =
  Send :: "'m process \<Rightarrow> Pid \<Rightarrow> 'm \<Rightarrow> error option"
  SendReg :: "'m process \<Rightarrow> ProcessID \<Rightarrow> 'm \<Rightarrow> error option"
  SendAlias :: "'m process \<Rightarrow> Alias \<Rightarrow> 'm \<Rightarrow> error option"

type_synonym 'm network = "string \<Rightarrow> error + 'm ConnectionInterface"

definition RouteSend ::
  "'m network \<Rightarrow> 'm core \<Rightarrow> Pid \<Rightarrow> Pid \<Rightarrow> 'm \<Rightarrow> error option \<times> 'm core" where
  "RouteSend GetConnection c from to message =
     (if Node from \<noteq> nodename c then (Some ErrSenderUnknown, c)
      else if Node to = nodename c then
        (if Creation to \<noteq> creation c then (Some ErrProcessIncarnation, c)
         else
           (case processes c (ID to) of
              None \<Rightarrow> (Some ErrProcessUnknown, c)
            | Some p \<Rightarrow>
                (case try_send (mailBox (heap c p)) (from, message) of
                   Some mb \<Rightarrow> (None, c\<lparr>heap := (heap c)(p := (heap c p)\<lparr>mailBox := mb\<rparr>)\<rparr>)
                 | None \<Rightarrow> (Some (WarningMailboxFull (self (heap c p)) from), c))))
      else
        (case processes c (ID from) of
           None \<Rightarrow> (Some ErrSenderUnknown, c)
         | Some p_from \<Rightarrow>
             (case GetConnection (Node to) of
                Inl err \<Rightarrow> (Some err, c)
              | Inr connection \<Rightarrow> (Send connection (heap c p_from) to message, c))))"



subsection \<open>Consistency of the alias table\<close>

text \<open>
  Every entry of the alias table names an allocated process that has the alias in its
  list, as \<^verbatim>\<open>newAlias\<close> leaves it. The last branch of \<^verbatim>\<open>deleteAlias\<close> is for a table
  where this fails.
\<close>

definition aliases_listed :: "'m core \<Rightarrow> bool" where
  "aliases_listed c =
     (\<forall>a p. aliases c a = Some p \<longrightarrow> p < nextAddr c \<and> a \<in> set (aliases_p (heap c p)))"

subsection \<open>A small node\<close>

text \<open>
  The node \<open>demo@localhost\<close> with creation 7, started at nanosecond 5000, after two
  spawns with mailbox capacity 1 (P, registered as \<open>p\<close>, and Q, unnamed) and one alias
  made for Q. P is at pointer 0 and Q at pointer 1.
\<close>

definition demo_opts :: processOptions where
  "demo_opts = \<lparr>MailboxSize = 1, Context = None\<rparr>"

definition demo_pidP :: Pid where
  "demo_pidP = \<lparr>Node = ''demo@localhost'', ID = 1001, Creation = 7\<rparr>"

definition demo_pidQ :: Pid where
  "demo_pidQ = \<lparr>Node = ''demo@localhost'', ID = 1002, Creation = 7\<rparr>"

definition demo_alias :: Alias where
  "demo_alias = \<lparr>Node_r = ''demo@localhost'', Creation_r = 7, ID_r = [5001, 0, 0]\<rparr>"

definition demo_P :: "nat process" where
  "demo_P = \<lparr>self = demo_pidP, name = ''p'', aliases_p = [], mailBox = Chan 1 [],
     gracefulExit = Chan 1 [], context_p = [1, 0], kill = 1, trapExit = False,
     exit = Some [1, 0]\<rparr>"

definition demo_Q :: "nat process" where
  "demo_Q = \<lparr>self = demo_pidQ, name = '''', aliases_p = [demo_alias], mailBox = Chan 1 [],
     gracefulExit = Chan 1 [], context_p = [2, 0], kill = 2, trapExit = False,
     exit = Some [2, 0]\<rparr>"

definition demo :: "nat core" where
  "demo = \<lparr>ctx = [0], stop = 0, nextPID = 1002, uniqID = 5001,
     nodename = ''demo@localhost'', creation = 7,
     names = [''p'' \<mapsto> demo_pidP], aliases = [demo_alias \<mapsto> 1],
     processes = [1001 \<mapsto> 0, 1002 \<mapsto> 1],
     heap = (\<lambda>_. zeroProcess)(0 := demo_P, 1 := demo_Q),
     cancelled = {}, nextToken = 3, nextAddr = 2\<rparr>"

text \<open>A network without a route to any peer.\<close>

definition no_route :: "nat network" where
  "no_route = (\<lambda>_. Inl ErrNoRoute)"

text \<open>The same node once Q has sent 42 to P: the mailbox of P is full.\<close>

definition demo_full :: "nat core" where
  "demo_full = demo\<lparr>heap := (heap demo)(0 := demo_P\<lparr>mailBox := Chan 1 [(demo_pidQ, 42)]\<rparr>)\<rparr>"

text \<open>The node as \<^verbatim>\<open>newCore\<close> returns it, before any spawn.\<close>

definition demo_start :: "nat core" where
  "demo_start = \<lparr>ctx = [0], stop = 0, nextPID = 1000, uniqID = 5000,
     nodename = ''demo@localhost'', creation = 7,
     names = Map.empty, aliases = Map.empty, processes = Map.empty,
     heap = (\<lambda>_. zeroProcess), cancelled = {}, nextToken = 1, nextAddr = 0\<rparr>"

text \<open>
  The node once its own cancel handle was invoked: the context of every process is
  cancelled and the three tables still hold P and Q.
\<close>

definition demo_stopped :: "nat core" where
  "demo_stopped = cancel demo (stop demo)"

text \<open>
  The node once Q has asked P to exit with reason \<open>normal\<close>: the graceful-exit channel
  of P is full and, P not trapping exits, the context of P is cancelled.
\<close>

definition demo_exited :: "nat core" where
  "demo_exited = demo\<lparr>heap := (heap demo)(0 := demo_P\<lparr>gracefulExit := Chan 1 [(demo_pidQ, ''normal'')]\<rparr>),
     cancelled := {1}\<rparr>"

text \<open>The pid of Q with the creation of an earlier incarnation of the node.\<close>

definition demo_stale :: Pid where
  "demo_stale = demo_pidQ\<lparr>Creation := 6\<rparr>"

text \<open>A pid of another node; its creation is the one of that node.\<close>

definition demo_remote :: Pid where
  "demo_remote = \<lparr>Node = ''other@localhost'', ID = 1001, Creation = 3\<rparr>"

text \<open>
  The node with P trapping exits and one exit request queued for it: the graceful-exit
  channel of P is full and its context is not cancelled.
\<close>

definition demo_busy :: "nat core" where
  "demo_busy = demo\<lparr>heap := (heap demo)(0 := demo_P\<lparr>trapExit := True,
     gracefulExit := Chan 1 [(demo_pidQ, ''normal'')]\<rparr>)\<rparr>"

text \<open>
  The node once P was removed by \<^verbatim>\<open>deleteProcess\<close> and Q has made a second alias, and
  that alias.
\<close>

definition demo_alias2 :: Alias where
  "demo_alias2 = \<lparr>Node_r = ''demo@localhost'', Creation_r = 7, ID_r = [5002, 0, 0]\<rparr>"

definition demo_reaped :: "nat core" where
  "demo_reaped = snd (newAlias (deleteProcess demo demo_pidP) 1)"

section \<open>Properties\<close>

subsection \<open>The small node is a state of the program\<close>

lemmas demo_defs = demo_def demo_P_def demo_Q_def demo_pidP_def demo_pidQ_def demo_alias_def

lemma demo_start_built:
  "newCore [] ''demo@localhost'' 7 5000 None {} 0 = Inr demo_start"
  by (simp add: newCore_def WithCancel_def startPID_def demo_start_def)

lemma demo_reachable:
  "snd (newAlias (snd (newProcess (snd (newProcess demo_start ''p'' demo_opts))
     '''' demo_opts)) 1) = demo"
  apply (simp add: demo_start_def newProcess_def newAlias_def MakeRef_def zeroRef_def
      WithCancel_def newPID_def Let_def demo_opts_def demo_defs)
  apply (simp only: numeral_2_eq_2)
  done

lemma demo_full_reachable:
  "RouteSend no_route demo demo_pidQ demo_pidP 42 = (None, demo_full)"
  by (simp add: RouteSend_def demo_full_def demo_defs)

lemma demo_exited_reachable:
  "process_exit demo 0 [1, 0] demo_pidQ ''normal'' = (None, demo_exited)"
  by (simp add: process_exit_def ctx_err_def cancel_def demo_exited_def demo_defs)

subsection \<open>Identifier mint\<close>

lemma mask18: "(push_bit 17 2 - 1 :: 64 word) = mask 18"
  by (simp add: mask_eq_exp_minus_1)

lemma ref_word0:
  "unat (ucast (nt AND (push_bit 17 2 - 1)) :: 32 word) = unat (nt :: 64 word) mod 2 ^ 18"
proof -
  have a: "nt AND (push_bit 17 2 - 1) = take_bit 18 nt"
    by (simp only: mask18 take_bit_eq_mask)
  have b: "unat (take_bit 18 nt) = unat nt mod 2 ^ 18"
    by (rule trans [OF unsigned_take_bit_eq take_bit_eq_mod])
  have c: "unat nt mod 2 ^ 18 < 2 ^ 32"
    by (rule less_trans [OF mod_less_divisor]) simp_all
  show ?thesis
    unfolding a using c by (simp add: unsigned_ucast_eq b take_bit_nat_eq_self_iff)
qed

lemma ref_word1:
  "unat (ucast (drop_bit 46 nt) :: 32 word) = unat (nt :: 64 word) div 2 ^ 46"
proof -
  have b: "unat (drop_bit 46 nt) = unat nt div 2 ^ 46"
    by (rule trans [OF unat_drop_bit_eq drop_bit_eq_div])
  have "unat nt < 2 ^ 64" using unsigned_less [of nt] by simp
  then have c: "unat nt div 2 ^ 46 < 2 ^ 32"
    by (simp add: less_mult_imp_div_less)
  show ?thesis
    using c by (simp add: unsigned_ucast_eq b take_bit_nat_eq_self_iff)
qed

lemma MakeRef_eq:
  "MakeRef c = (\<lparr>Node_r = nodename c, Creation_r = creation c,
       ID_r = [ucast ((uniqID c + 1) AND (push_bit 17 2 - 1)),
               ucast (drop_bit 46 (uniqID c + 1)), 0]\<rparr>,
     c\<lparr>uniqID := uniqID c + 1\<rparr>)"
  by (simp add: MakeRef_def zeroRef_def Let_def)

lemma unat_succ: "unat (w :: 64 word) < 2 ^ 64 - 1 \<Longrightarrow> unat (w + 1) = unat w + 1"
  by (simp add: unat_word_ariths)

text \<open>
  Claim C5. Every reference that \<^verbatim>\<open>MakeRef\<close> returns carries the name and the creation
  of the node. The call adds one to the 64-bit counter \<open>uniqID\<close>, which \<^verbatim>\<open>newCore\<close> sets
  to the wall-clock nanoseconds of the start, and the counter grows by one as a number
  unless it is at its largest value. Of the three words of the reference, the first is
  the new counter modulo \<open>2 ^ 18\<close>, the second is the new counter shifted right by 46
  bits and the third is 0.
\<close>

theorem MakeRef_words:
  "Node_r (fst (MakeRef c)) = nodename c
   \<and> Creation_r (fst (MakeRef c)) = creation c
   \<and> uniqID (snd (MakeRef c)) = uniqID c + 1
   \<and> length (ID_r (fst (MakeRef c))) = 3
   \<and> unat (ID_r (fst (MakeRef c)) ! 0) = unat (uniqID (snd (MakeRef c))) mod 2 ^ 18
   \<and> unat (ID_r (fst (MakeRef c)) ! 1) = unat (uniqID (snd (MakeRef c))) div 2 ^ 46
   \<and> ID_r (fst (MakeRef c)) ! 2 = 0
   \<and> (unat (uniqID c) < 2 ^ 64 - 1 \<longrightarrow> unat (uniqID (snd (MakeRef c))) = unat (uniqID c) + 1)
   \<and> (newCore cx n cr now network_err cs tok = Inr c0 \<longrightarrow>
        uniqID c0 = word_of_int now \<and> nodename c0 = n \<and> creation c0 = cr)"
proof -
  have core: "newCore cx n cr now network_err cs tok = Inr c0 \<longrightarrow>
        uniqID c0 = word_of_int now \<and> nodename c0 = n \<and> creation c0 = cr"
    by (auto simp: newCore_def WithCancel_def Let_def split: option.splits)
  show ?thesis
    using core ref_word0 [of "uniqID c + 1"] ref_word1 [of "uniqID c + 1"]
    by (simp add: MakeRef_eq unat_succ)
qed

theorem MakeRef_words_witness:
  "unat (uniqID demo) < 2 ^ 64 - 1
   \<and> newCore [] ''demo@localhost'' 7 5000 None {} 0 = Inr demo_start
   \<and> uniqID demo_start = 5000
   \<and> unat (uniqID (snd (MakeRef demo))) = 5002
   \<and> unat (ID_r (fst (MakeRef demo)) ! 0) = 5002
   \<and> unat (ID_r (fst (MakeRef demo)) ! 1) = 0"
proof -
  have h1: "unat (uniqID demo) < 2 ^ 64 - 1" by (simp add: demo_def)
  have h2: "newCore [] ''demo@localhost'' 7 5000 None {} 0 = Inr demo_start"
    by (rule demo_start_built)
  have u: "uniqID demo = 5001" by (simp add: demo_def)
  from MakeRef_words [of demo "[]" "''demo@localhost''" 7 5000 None "{}" 0 demo_start] h1 h2 u
  show ?thesis by simp
qed

subsection \<open>Names\<close>

text \<open>
  Claim C10. \<^verbatim>\<open>unregisterName\<close> takes the name alone and checks no owner: when the name
  is registered it removes the entry and returns no error, it returns \<^verbatim>\<open>ErrNameUnknown\<close>
  exactly when the name is not registered, leaving the core as it was, and it never
  returns \<^verbatim>\<open>ErrNameOwner\<close>.
\<close>

theorem unregisterName_no_owner_check:
  "(names c n \<noteq> None \<longrightarrow> unregisterName c n = (None, c\<lparr>names := (names c)(n := None)\<rparr>))
   \<and> (fst (unregisterName c n) = Some ErrNameUnknown \<longleftrightarrow> names c n = None)
   \<and> (names c n = None \<longrightarrow> snd (unregisterName c n) = c)
   \<and> fst (unregisterName c n) \<noteq> Some ErrNameOwner"
  by (simp add: unregisterName_def)

theorem unregisterName_no_owner_check_witness:
  "names demo ''p'' \<noteq> None
   \<and> fst (unregisterName demo ''p'') = None
   \<and> names (snd (unregisterName demo ''p'')) ''p'' = None
   \<and> names demo ''q'' = None
   \<and> unregisterName demo ''q'' = (Some ErrNameUnknown, demo)"
proof -
  have h1: "names demo ''p'' \<noteq> None" by (simp add: demo_def)
  have h2: "names demo ''q'' = None" by (simp add: demo_def)
  from unregisterName_no_owner_check [of demo "''p''"] h1
  have r1: "unregisterName demo ''p'' = (None, demo\<lparr>names := (names demo)(''p'' := None)\<rparr>)"
    by blast
  from unregisterName_no_owner_check [of demo "''q''"] h2
  have r2: "fst (unregisterName demo ''q'') = Some ErrNameUnknown
            \<and> snd (unregisterName demo ''q'') = demo"
    by blast
  show ?thesis using h1 h2 r1 r2 by (simp add: prod_eq_iff)
qed

subsection \<open>Lookups\<close>

lemma ProcessByPid_live: "ProcessByPid c pid = Some r \<Longrightarrow> IsAlive c r"
  by (auto simp: ProcessByPid_def split: option.splits if_splits)

text \<open>
  Claim C7. A lookup never returns a process whose context is cancelled:
  \<^verbatim>\<open>ProcessByPid\<close>, \<^verbatim>\<open>ProcessByAlias\<close> and \<^verbatim>\<open>ProcessByName\<close> return nil when the entry
  they find in their table is a process with a cancelled context, although the process
  is still in the table, and whatever process any of them returns has a context that is
  not cancelled. (With the empty name \<^verbatim>\<open>ProcessByName\<close> reads no name entry and looks
  up the zero pid.)
\<close>

theorem lookups_skip_cancelled:
  "(processes c (ID pid) = Some p \<and> ctx_err (cancelled c) (context_p (heap c p))
      \<longrightarrow> ProcessByPid c pid = None)
   \<and> (aliases c alias = Some p \<and> ctx_err (cancelled c) (context_p (heap c p))
      \<longrightarrow> ProcessByAlias c alias = None)
   \<and> (n \<noteq> '''' \<and> names c n = Some pid \<and> processes c (ID pid) = Some p
        \<and> ctx_err (cancelled c) (context_p (heap c p))
      \<longrightarrow> ProcessByName c n = None)
   \<and> (ProcessByPid c pid = Some r \<or> ProcessByAlias c alias = Some r \<or> ProcessByName c n = Some r
      \<longrightarrow> \<not> ctx_err (cancelled c) (context_p (heap c r)))"
proof -
  have by_name: "ProcessByName c n = Some r \<Longrightarrow> IsAlive c r"
    by (auto simp: ProcessByName_def dest: ProcessByPid_live split: option.splits if_splits)
  have by_alias: "ProcessByAlias c alias = Some r \<Longrightarrow> IsAlive c r"
    by (auto simp: ProcessByAlias_def split: option.splits if_splits)
  have a: "processes c (ID pid) = Some p \<and> ctx_err (cancelled c) (context_p (heap c p))
      \<longrightarrow> ProcessByPid c pid = None"
    by (simp add: ProcessByPid_def IsAlive_def)
  have b: "aliases c alias = Some p \<and> ctx_err (cancelled c) (context_p (heap c p))
      \<longrightarrow> ProcessByAlias c alias = None"
    by (simp add: ProcessByAlias_def IsAlive_def)
  have d: "n \<noteq> '''' \<and> names c n = Some pid \<and> processes c (ID pid) = Some p
        \<and> ctx_err (cancelled c) (context_p (heap c p))
      \<longrightarrow> ProcessByName c n = None"
    by (simp add: ProcessByName_def ProcessByPid_def IsAlive_def)
  have e: "ProcessByPid c pid = Some r \<or> ProcessByAlias c alias = Some r \<or> ProcessByName c n = Some r
      \<longrightarrow> \<not> ctx_err (cancelled c) (context_p (heap c r))"
    using ProcessByPid_live [of c pid r] by_alias by_name by (auto simp: IsAlive_def)
  from a b d e show ?thesis by blast
qed

lemma demo_stopped_eq: "demo_stopped = demo\<lparr>cancelled := {0}\<rparr>"
  by (simp add: demo_stopped_def cancel_def demo_def)

theorem lookups_skip_cancelled_witness:
  "processes demo_stopped (ID demo_pidP) = Some 0
   \<and> aliases demo_stopped demo_alias = Some 1
   \<and> names demo_stopped ''p'' = Some demo_pidP
   \<and> ctx_err (cancelled demo_stopped) (context_p (heap demo_stopped 0))
   \<and> ctx_err (cancelled demo_stopped) (context_p (heap demo_stopped 1))
   \<and> ProcessByPid demo_stopped demo_pidP = None
   \<and> ProcessByAlias demo_stopped demo_alias = None
   \<and> ProcessByName demo_stopped ''p'' = None
   \<and> ProcessByPid demo demo_pidP = Some 0
   \<and> ProcessByAlias demo demo_alias = Some 1
   \<and> ProcessByName demo ''p'' = Some 0
   \<and> \<not> ctx_err (cancelled demo) (context_p (heap demo 0))
   \<and> \<not> ctx_err (cancelled demo) (context_p (heap demo 1))"
proof -
  have h1: "processes demo_stopped (ID demo_pidP) = Some 0"
    by (simp add: demo_stopped_eq demo_defs)
  have h2: "aliases demo_stopped demo_alias = Some 1"
    by (simp add: demo_stopped_eq demo_defs)
  have h3: "names demo_stopped ''p'' = Some demo_pidP"
    by (simp add: demo_stopped_eq demo_defs)
  have h4: "ctx_err (cancelled demo_stopped) (context_p (heap demo_stopped 0))"
    by (simp add: demo_stopped_eq ctx_err_def demo_defs)
  have h5: "ctx_err (cancelled demo_stopped) (context_p (heap demo_stopped 1))"
    by (simp add: demo_stopped_eq ctx_err_def demo_defs)
  have g1: "ProcessByPid demo demo_pidP = Some 0"
    by (simp add: ProcessByPid_def IsAlive_def ctx_err_def demo_defs)
  have g2: "ProcessByAlias demo demo_alias = Some 1"
    by (simp add: ProcessByAlias_def IsAlive_def ctx_err_def demo_defs)
  have g3: "ProcessByName demo ''p'' = Some 0"
    by (simp add: ProcessByName_def ProcessByPid_def IsAlive_def ctx_err_def demo_defs)
  have ne: "''p'' \<noteq> ''''" by simp
  from lookups_skip_cancelled [of demo_stopped demo_pidP 0 demo_alias "''p''"] h1 h4 h3 ne
  have r1: "ProcessByPid demo_stopped demo_pidP = None"
    and r3: "ProcessByName demo_stopped ''p'' = None" by blast+
  from lookups_skip_cancelled [of demo_stopped demo_pidP 1 demo_alias "''p''"] h2 h5
  have r2: "ProcessByAlias demo_stopped demo_alias = None" by blast
  from lookups_skip_cancelled [of demo demo_pidP _ demo_alias "''p''" 0] g1
  have r4: "\<not> ctx_err (cancelled demo) (context_p (heap demo 0))" by blast
  from lookups_skip_cancelled [of demo demo_pidP _ demo_alias "''p''" 1] g2
  have r5: "\<not> ctx_err (cancelled demo) (context_p (heap demo 1))" by blast
  from h1 h2 h3 h4 h5 r1 r2 r3 g1 g2 g3 r4 r5 show ?thesis by blast
qed

subsection \<open>Aliases\<close>

lemma find_alias_None: "find_alias a xs i = None \<longleftrightarrow> a \<notin> set xs"
  by (induction xs arbitrary: i) auto

lemma deleteAlias_ok_removes:
  "fst (deleteAlias c owner a) = None \<Longrightarrow> aliases (snd (deleteAlias c owner a)) a = None"
  by (auto simp: deleteAlias_def Let_def split: option.splits if_splits)

lemma find_alias_Some:
  "find_alias a xs i = Some j \<Longrightarrow> i \<le> j \<and> j - i < length xs \<and> xs ! (j - i) = a"
proof (induction xs arbitrary: i)
  case Nil
  then show ?case by simp
next
  case (Cons x xs)
  show ?case
  proof (cases "a = x")
    case True
    with Cons.prems show ?thesis by simp
  next
    case False
    with Cons.prems have "find_alias a xs (Suc i) = Some j" by simp
    from Cons.IH [OF this] have "Suc i \<le> j" "j - Suc i < length xs" "xs ! (j - Suc i) = a"
      by simp_all
    then show ?thesis by (simp add: Suc_diff_le nth_Cons')
  qed
qed

lemma swap_remove_keeps:
  assumes "i < length xs" "y \<in> set xs" "y \<noteq> xs ! i"
  shows "y \<in> set (drop 1 (xs[i := xs ! 0]))"
proof (cases xs)
  case Nil
  with assms show ?thesis by simp
next
  case (Cons x xs')
  show ?thesis
  proof (cases i)
    case 0
    with Cons assms show ?thesis by auto
  next
    case (Suc k)
    with Cons assms have k: "k < length xs'" and ne: "y \<noteq> xs' ! k" by simp_all
    from Cons Suc have eq: "drop 1 (xs[i := xs ! 0]) = xs'[k := x]" by simp
    show ?thesis
    proof (cases "y = x")
      case True
      with k show ?thesis unfolding eq by (simp add: set_update_memI)
    next
      case False
      with Cons assms have "y \<in> set xs'" by simp
      then obtain m where m: "m < length xs'" "xs' ! m = y" by (auto simp: in_set_conv_nth)
      with ne have "m \<noteq> k" by auto
      with m have "(xs'[k := x]) ! m = y" by simp
      with m show ?thesis unfolding eq by (metis length_list_update nth_mem)
    qed
  qed
qed

lemma newCore_listed:
  "newCore cx n cr now network_err cs tok = Inr c \<Longrightarrow> aliases_listed c"
  by (auto simp: aliases_listed_def newCore_def WithCancel_def Let_def split: option.splits)

lemma newProcess_frame:
  "aliases (snd (newProcess c n opts)) = aliases c
   \<and> nextAddr (snd (newProcess c n opts)) = Suc (nextAddr c)
   \<and> (p \<noteq> nextAddr c \<longrightarrow> heap (snd (newProcess c n opts)) p = heap c p)"
  by (simp add: newProcess_def WithCancel_def newPID_def Let_def split: option.splits)

lemma newProcess_listed:
  assumes "aliases_listed c"
  shows "aliases_listed (snd (newProcess c n opts))"
  unfolding aliases_listed_def
proof (intro allI impI)
  fix a p
  assume "aliases (snd (newProcess c n opts)) a = Some p"
  then have "aliases c a = Some p" by (simp add: newProcess_frame)
  with assms have b: "p < nextAddr c" and m: "a \<in> set (aliases_p (heap c p))"
    by (simp_all add: aliases_listed_def)
  from b have "p \<noteq> nextAddr c" by simp
  with newProcess_frame [of c n opts p] have "heap (snd (newProcess c n opts)) p = heap c p"
    by blast
  with b m show "p < nextAddr (snd (newProcess c n opts))
      \<and> a \<in> set (aliases_p (heap (snd (newProcess c n opts)) p))"
    by (simp add: newProcess_frame)
qed

lemma newAlias_listed:
  "aliases_listed c \<Longrightarrow> p < nextAddr c \<Longrightarrow> aliases_listed (snd (newAlias c p))"
  by (auto simp: aliases_listed_def newAlias_def MakeRef_def Let_def split: if_splits)

lemma deleteAlias_listed:
  assumes "aliases_listed c"
  shows "aliases_listed (snd (deleteAlias c owner a))"
proof (cases "aliases c a")
  case None
  with assms show ?thesis by (simp add: deleteAlias_def)
next
  case (Some p)
  note reg = Some
  show ?thesis
  proof (cases "find_alias a (aliases_p (heap c p)) 0")
    case None
    with reg assms show ?thesis
      by (auto simp: deleteAlias_def aliases_listed_def)
  next
    case (Some i)
    note found = Some
    from find_alias_Some [OF found] have i: "i < length (aliases_p (heap c p))"
      and ai: "aliases_p (heap c p) ! i = a" by simp_all
    have keep: "\<And>a' p'. a' \<noteq> a \<Longrightarrow> aliases c a' = Some p' \<Longrightarrow>
        p' < nextAddr c \<and> a' \<in> set (aliases_p (((heap c)(p := (heap c p)\<lparr>aliases_p :=
              drop 1 ((aliases_p (heap c p))[i := aliases_p (heap c p) ! 0])\<rparr>)) p'))"
    proof -
      fix a' p' assume ne: "a' \<noteq> a" and e: "aliases c a' = Some p'"
      from assms e have m: "a' \<in> set (aliases_p (heap c p'))" and b: "p' < nextAddr c"
        by (simp_all add: aliases_listed_def)
      show "p' < nextAddr c \<and> a' \<in> set (aliases_p (((heap c)(p := (heap c p)\<lparr>aliases_p :=
              drop 1 ((aliases_p (heap c p))[i := aliases_p (heap c p) ! 0])\<rparr>)) p'))"
      proof (cases "p' = p")
        case True
        with m b ne ai i swap_remove_keeps [of i "aliases_p (heap c p)" a']
        show ?thesis by simp
      next
        case False
        with m b show ?thesis by simp
      qed
    qed
    from reg found assms show ?thesis
      using keep by (auto simp: deleteAlias_def aliases_listed_def Let_def)
  qed
qed

lemma deleteProcess_listed: "aliases_listed c \<Longrightarrow> aliases_listed (deleteProcess c pid)"
  by (auto simp: aliases_listed_def deleteProcess_def Let_def split: option.splits)

lemma deleteAlias_error_keeps:
  "aliases_listed c \<Longrightarrow> fst (deleteAlias c owner a) \<noteq> None \<Longrightarrow> snd (deleteAlias c owner a) = c"
  by (auto simp: aliases_listed_def deleteAlias_def Let_def find_alias_None
      split: option.splits if_splits)

lemma RouteSend_listed:
  "aliases_listed c \<Longrightarrow> aliases_listed (snd (RouteSend GetConnection c from to message))"
  by (auto simp: aliases_listed_def RouteSend_def split: option.splits sum.splits if_splits)

lemma process_exit_listed:
  "aliases_listed c \<Longrightarrow> aliases_listed (snd (process_exit c p processContext from reason))"
  by (auto simp: aliases_listed_def process_exit_def cancel_def Let_def
      split: option.splits if_splits)

lemma names_listed:
  "aliases_listed c \<Longrightarrow>
     aliases_listed (snd (registerName c n pid)) \<and> aliases_listed (snd (unregisterName c n))"
  by (simp add: aliases_listed_def registerName_def unregisterName_def)

lemma demo_listed: "aliases_listed demo"
  by (simp add: aliases_listed_def demo_defs)

text \<open>
  \<^verbatim>\<open>newCore\<close> starts with a consistent alias table and every operation of the core on
  allocated processes keeps it consistent (the lemmas above); on a consistent table
  every error of \<^verbatim>\<open>deleteAlias\<close> leaves the core unchanged, and the last branch of
  \<^verbatim>\<open>deleteAlias\<close>, which changes the alias table and returns an error, is not taken.
\<close>

lemma deleteAlias_last_branch:
  "fst (deleteAlias c owner a) \<noteq> None \<Longrightarrow> snd (deleteAlias c owner a) \<noteq> c \<Longrightarrow>
     \<not> aliases_listed c"
  using deleteAlias_error_keeps by blast

lemma demo_reaped_tables:
  "aliases demo_reaped = [demo_alias2 \<mapsto> 1]
   \<and> processes demo_reaped = [1002 \<mapsto> 1]
   \<and> self (heap demo_reaped 0) = demo_pidP
   \<and> self (heap demo_reaped 1) = demo_pidQ"
  by (simp add: demo_reaped_def newAlias_def deleteProcess_def MakeRef_def zeroRef_def Let_def
      demo_alias2_def demo_defs fun_eq_iff)

lemma demo_reaped_listed: "aliases_listed demo_reaped"
proof -
  have "aliases_listed (deleteProcess demo demo_pidP)"
    by (rule deleteProcess_listed [OF demo_listed])
  moreover have "1 < nextAddr (deleteProcess demo demo_pidP)"
    by (simp add: deleteProcess_def Let_def demo_defs)
  ultimately show ?thesis
    unfolding demo_reaped_def by (rule newAlias_listed)
qed

text \<open>
  Claim C6. On a core with a consistent alias table, which is every core that the
  operations build, \<^verbatim>\<open>deleteAlias\<close> returns \<^verbatim>\<open>ErrAliasUnknown\<close> exactly when the alias is
  not in the alias table, so a second delete after a successful one returns
  \<^verbatim>\<open>ErrAliasUnknown\<close>; for an alias in the table it returns \<^verbatim>\<open>ErrProcessUnknown\<close> when
  the owner is not in the process table, and \<^verbatim>\<open>ErrAliasOwner\<close> when the owner is in the
  process table and the alias is registered to a process with another pid. These are
  all the errors, and in every error case the core, with the alias table and the alias
  list of every process, is unchanged.
\<close>

theorem deleteAlias_errors:
  assumes "aliases_listed c"
  shows
  "(aliases c a = None \<longrightarrow> deleteAlias c owner a = (Some ErrAliasUnknown, c))
   \<and> (fst (deleteAlias c owner a) = Some ErrAliasUnknown \<longrightarrow> aliases c a = None)
   \<and> (aliases c a = Some p \<and> processes c (ID (self (heap c owner))) = None \<longrightarrow>
        deleteAlias c owner a = (Some ErrProcessUnknown, c))
   \<and> (aliases c a = Some p \<and> processes c (ID (self (heap c owner))) \<noteq> None
        \<and> self (heap c p) \<noteq> self (heap c owner) \<longrightarrow>
        deleteAlias c owner a = (Some ErrAliasOwner, c))
   \<and> (fst (deleteAlias c owner a) = None \<longrightarrow>
        deleteAlias (snd (deleteAlias c owner a)) owner a
          = (Some ErrAliasUnknown, snd (deleteAlias c owner a)))
   \<and> (fst (deleteAlias c owner a) \<noteq> None \<longrightarrow>
        snd (deleteAlias c owner a) = c
        \<and> fst (deleteAlias c owner a)
             \<in> {Some ErrAliasUnknown, Some ErrProcessUnknown, Some ErrAliasOwner})"
proof -
  have unknown: "\<And>c'. aliases c' a = None \<Longrightarrow> deleteAlias c' owner a = (Some ErrAliasUnknown, c')"
    by (simp add: deleteAlias_def)
  have only: "fst (deleteAlias c owner a) = Some ErrAliasUnknown \<longrightarrow> aliases c a = None"
    using assms
    by (auto simp: aliases_listed_def deleteAlias_def Let_def find_alias_None
        split: option.splits if_splits)
  have gone: "aliases c a = Some p \<and> processes c (ID (self (heap c owner))) = None \<longrightarrow>
        deleteAlias c owner a = (Some ErrProcessUnknown, c)"
    by (simp add: deleteAlias_def)
  have other: "aliases c a = Some p \<and> processes c (ID (self (heap c owner))) \<noteq> None
        \<and> self (heap c p) \<noteq> self (heap c owner) \<longrightarrow>
        deleteAlias c owner a = (Some ErrAliasOwner, c)"
    by (auto simp: deleteAlias_def)
  have again: "fst (deleteAlias c owner a) = None \<longrightarrow>
        deleteAlias (snd (deleteAlias c owner a)) owner a
          = (Some ErrAliasUnknown, snd (deleteAlias c owner a))"
    using unknown deleteAlias_ok_removes by blast
  have kept: "fst (deleteAlias c owner a) \<noteq> None \<longrightarrow> snd (deleteAlias c owner a) = c"
    using assms deleteAlias_error_keeps by blast
  have kinds: "fst (deleteAlias c owner a) \<noteq> None \<longrightarrow>
        fst (deleteAlias c owner a)
          \<in> {Some ErrAliasUnknown, Some ErrProcessUnknown, Some ErrAliasOwner}"
    by (auto simp: deleteAlias_def Let_def split: option.splits if_splits)
  from unknown [of c] only gone other again kept kinds show ?thesis
    by (intro conjI impI) blast+
qed

theorem deleteAlias_errors_witness:
  "aliases_listed demo
   \<and> aliases demo demo_alias2 = None
   \<and> deleteAlias demo 1 demo_alias2 = (Some ErrAliasUnknown, demo)
   \<and> aliases_listed demo_reaped
   \<and> aliases demo_reaped demo_alias2 = Some 1
   \<and> processes demo_reaped (ID (self (heap demo_reaped 0))) = None
   \<and> deleteAlias demo_reaped 0 demo_alias2 = (Some ErrProcessUnknown, demo_reaped)
   \<and> aliases demo demo_alias = Some 1
   \<and> processes demo (ID (self (heap demo 0))) \<noteq> None
   \<and> self (heap demo 1) \<noteq> self (heap demo 0)
   \<and> deleteAlias demo 0 demo_alias = (Some ErrAliasOwner, demo)
   \<and> fst (deleteAlias demo 1 demo_alias) = None
   \<and> deleteAlias (snd (deleteAlias demo 1 demo_alias)) 1 demo_alias
        = (Some ErrAliasUnknown, snd (deleteAlias demo 1 demo_alias))"
proof -
  have h1: "aliases demo demo_alias2 = None" by (simp add: demo_alias2_def demo_defs)
  have h2: "aliases demo_reaped demo_alias2 = Some 1" by (simp add: demo_reaped_tables)
  have h3: "processes demo_reaped (ID (self (heap demo_reaped 0))) = None"
    by (simp add: demo_reaped_tables demo_pidP_def)
  have h4: "aliases demo demo_alias = Some 1" by (simp add: demo_defs)
  have h5: "processes demo (ID (self (heap demo 0))) \<noteq> None" by (simp add: demo_defs)
  have h6: "self (heap demo 1) \<noteq> self (heap demo 0)" by (simp add: demo_defs)
  have h7: "fst (deleteAlias demo 1 demo_alias) = None"
    by (simp add: deleteAlias_def demo_defs)
  from deleteAlias_errors [OF demo_listed, of demo_alias2 1 1] h1
  have r1: "deleteAlias demo 1 demo_alias2 = (Some ErrAliasUnknown, demo)" by blast
  from deleteAlias_errors [OF demo_reaped_listed, of demo_alias2 0 1] h2 h3
  have r2: "deleteAlias demo_reaped 0 demo_alias2 = (Some ErrProcessUnknown, demo_reaped)"
    by blast
  from deleteAlias_errors [OF demo_listed, of demo_alias 0 1] h4 h5 h6
  have r3: "deleteAlias demo 0 demo_alias = (Some ErrAliasOwner, demo)" by blast
  from deleteAlias_errors [OF demo_listed, of demo_alias 1 1] h7
  have r4: "deleteAlias (snd (deleteAlias demo 1 demo_alias)) 1 demo_alias
        = (Some ErrAliasUnknown, snd (deleteAlias demo 1 demo_alias))" by blast
  from demo_listed demo_reaped_listed h1 r1 h2 h3 r2 h4 h5 h6 r3 h7 r4 show ?thesis by blast
qed

subsection \<open>Removal of a process\<close>

text \<open>
  What \<^verbatim>\<open>deleteProcess\<close> does for a process it finds: the process leaves the process
  table, no name maps to its pid any more, the alias table is empty, and no process
  record is touched.
\<close>

lemma deleteProcess_clears:
  "processes c (ID pid) = Some p \<Longrightarrow>
     processes (deleteProcess c pid) (ID pid) = None
     \<and> (name (heap c p) \<noteq> '''' \<longrightarrow> names (deleteProcess c pid) (name (heap c p)) = None)
     \<and> names (deleteProcess c pid) n \<noteq> Some (self (heap c p))
     \<and> aliases (deleteProcess c pid) = Map.empty
     \<and> heap (deleteProcess c pid) = heap c"
  by (auto simp: deleteProcess_def Let_def fun_eq_iff split: option.splits)


text \<open>
  Claim C1, at a failing input. The claim has \<^verbatim>\<open>deleteProcess\<close> drop the aliases of
  the removed process only. On the small node, where the one alias belongs to Q,
  removing P takes P out of the lookups by pid and by name, keeps Q live and in the
  process table with the alias in its list, and removes the alias of Q from the alias
  table: the lookup of Q by its alias returns nil.
\<close>

theorem deleteProcess_drops_every_alias:
  "ProcessByPid demo demo_pidP = Some 0
   \<and> ProcessByAlias demo demo_alias = Some 1
   \<and> ProcessByPid (deleteProcess demo demo_pidP) demo_pidP = None
   \<and> ProcessByName (deleteProcess demo demo_pidP) ''p'' = None
   \<and> ProcessByPid (deleteProcess demo demo_pidP) demo_pidQ = Some 1
   \<and> aliases_p (heap (deleteProcess demo demo_pidP) 1) = [demo_alias]
   \<and> aliases (deleteProcess demo demo_pidP) demo_alias = None
   \<and> ProcessByAlias (deleteProcess demo demo_pidP) demo_alias = None"
  by (simp add: deleteProcess_def ProcessByPid_def ProcessByAlias_def ProcessByName_def
      IsAlive_def ctx_err_def Let_def demo_defs)


subsection \<open>The exit capability\<close>

text \<open>
  Claim C9, as the code has it. \<^verbatim>\<open>newProcess\<close> stores in every process the closure
  \<^verbatim>\<open>exit\<close> over the context of the process, with \<^verbatim>\<open>trapExit\<close> false. Called when that
  context is already cancelled, the closure returns \<^verbatim>\<open>ErrProcessUnknown\<close> and does
  nothing. Otherwise it tries to put the record \<open>(from, reason)\<close> on the graceful-exit
  channel without blocking: when the channel is full it returns \<^verbatim>\<open>ErrProcessBusy\<close> and
  does nothing more; when the record is queued it returns no error and, unless the
  process traps exits, invokes the kill handle of the process.
\<close>

theorem exit_capability:
  "(ctx_err (cancelled c) processContext \<longrightarrow>
      process_exit c p processContext from reason = (Some ErrProcessUnknown, c))
   \<and> (\<not> ctx_err (cancelled c) processContext \<and> gracefulExit (heap c p) = Chan cap q
        \<and> cap \<le> length q \<longrightarrow>
      process_exit c p processContext from reason = (Some ErrProcessBusy, c))
   \<and> (\<not> ctx_err (cancelled c) processContext \<and> gracefulExit (heap c p) = Chan cap q
        \<and> length q < cap \<longrightarrow>
      process_exit c p processContext from reason =
        (None,
         let c' = c\<lparr>heap := (heap c)(p := (heap c p)\<lparr>gracefulExit := Chan cap (q @ [(from, reason)])\<rparr>)\<rparr>
         in if trapExit (heap c p) then c' else cancel c' (kill (heap c p))))
   \<and> (newProcess c0 n opts = (Inr a, c1) \<longrightarrow>
        exit (heap c1 a) = Some (context_p (heap c1 a)) \<and> \<not> trapExit (heap c1 a))"
proof -
  have wired: "newProcess c0 n opts = (Inr a, c1) \<longrightarrow>
        exit (heap c1 a) = Some (context_p (heap c1 a)) \<and> \<not> trapExit (heap c1 a)"
    by (auto simp: newProcess_def WithCancel_def newPID_def Let_def
        split: option.splits if_splits prod.splits)
  show ?thesis
    using wired by (simp add: process_exit_def Let_def)
qed

theorem exit_capability_witness:
  "\<not> ctx_err (cancelled demo) [1, 0]
   \<and> gracefulExit (heap demo 0) = Chan 1 []
   \<and> process_exit demo 0 [1, 0] demo_pidQ ''normal'' = (None, demo_exited)
   \<and> ctx_err (cancelled demo_exited) [1, 0]
   \<and> process_exit demo_exited 0 [1, 0] demo_pidQ ''again'' = (Some ErrProcessUnknown, demo_exited)
   \<and> \<not> ctx_err (cancelled demo_busy) [1, 0]
   \<and> gracefulExit (heap demo_busy 0) = Chan 1 [(demo_pidQ, ''normal'')]
   \<and> process_exit demo_busy 0 [1, 0] demo_pidQ ''again'' = (Some ErrProcessBusy, demo_busy)
   \<and> newProcess demo_start ''p'' demo_opts
       = (Inr 0, snd (newProcess demo_start ''p'' demo_opts))
   \<and> exit (heap (snd (newProcess demo_start ''p'' demo_opts)) 0) = Some [1, 0]"
proof -
  have h1: "\<not> ctx_err (cancelled demo) [1, 0]" by (simp add: ctx_err_def demo_def)
  have h2: "gracefulExit (heap demo 0) = Chan 1 []" by (simp add: demo_defs)
  have h3: "(0::nat) < 1" by simp
  have h4: "ctx_err (cancelled demo_exited) [1, 0]" by (simp add: ctx_err_def demo_exited_def)
  have h5: "\<not> ctx_err (cancelled demo_busy) [1, 0]"
    by (simp add: ctx_err_def demo_busy_def demo_def)
  have h6: "gracefulExit (heap demo_busy 0) = Chan 1 [(demo_pidQ, ''normal'')]"
    by (simp add: demo_busy_def demo_defs)
  have h7: "newProcess demo_start ''p'' demo_opts
       = (Inr 0, snd (newProcess demo_start ''p'' demo_opts))"
    by (simp add: newProcess_def WithCancel_def newPID_def Let_def demo_start_def demo_opts_def)
  have c7: "context_p (heap (snd (newProcess demo_start ''p'' demo_opts)) 0) = [1, 0]"
    by (simp add: newProcess_def WithCancel_def newPID_def Let_def demo_start_def demo_opts_def)
  have e1: "(let c' = demo\<lparr>heap := (heap demo)(0 := (heap demo 0)\<lparr>gracefulExit :=
                 Chan 1 ([] @ [(demo_pidQ, ''normal'')])\<rparr>)\<rparr>
             in if trapExit (heap demo 0) then c' else cancel c' (kill (heap demo 0)))
            = demo_exited"
    by (simp add: demo_exited_def cancel_def demo_defs)
  from exit_capability [of demo "[1, 0]" 0 demo_pidQ "''normal''" 1 "[]" demo_start "''p''" demo_opts 0
      "snd (newProcess demo_start ''p'' demo_opts)"] h1 h2 h3
  have "process_exit demo 0 [1, 0] demo_pidQ ''normal'' =
        (None, let c' = demo\<lparr>heap := (heap demo)(0 := (heap demo 0)\<lparr>gracefulExit :=
                 Chan 1 ([] @ [(demo_pidQ, ''normal'')])\<rparr>)\<rparr>
             in if trapExit (heap demo 0) then c' else cancel c' (kill (heap demo 0)))"
    by simp
  then have r1: "process_exit demo 0 [1, 0] demo_pidQ ''normal'' = (None, demo_exited)"
    by (simp only: e1)
  from exit_capability [of demo_exited "[1, 0]" 0 demo_pidQ "''again''" 1 "[]" demo_start "''p''" demo_opts 0
      "snd (newProcess demo_start ''p'' demo_opts)"] h4
  have r2: "process_exit demo_exited 0 [1, 0] demo_pidQ ''again''
              = (Some ErrProcessUnknown, demo_exited)"
    by blast
  from exit_capability [of demo_busy "[1, 0]" 0 demo_pidQ "''again''" 1
      "[(demo_pidQ, ''normal'')]" demo_start "''p''" demo_opts 0
      "snd (newProcess demo_start ''p'' demo_opts)"] h5 h6
  have r3: "process_exit demo_busy 0 [1, 0] demo_pidQ ''again'' = (Some ErrProcessBusy, demo_busy)"
    by simp
  from exit_capability [of demo "[1, 0]" 0 demo_pidQ "''normal''" 1 "[]" demo_start "''p''" demo_opts 0
      "snd (newProcess demo_start ''p'' demo_opts)"] h7 c7
  have r4: "exit (heap (snd (newProcess demo_start ''p'' demo_opts)) 0) = Some [1, 0]"
    by simp
  from h1 h2 r1 h4 r2 h5 h6 r3 h7 r4 show ?thesis by blast
qed

text \<open>
  The claim as stated has the closure return \<^verbatim>\<open>ErrProcessBusy\<close> whenever the channel is
  full. Once Q has asked P to exit, the channel of P is full and the context of P is
  cancelled: a second call returns \<^verbatim>\<open>ErrProcessUnknown\<close>.
\<close>

theorem exit_dead_process_full_channel:
  "gracefulExit (heap demo_exited 0) = Chan 1 [(demo_pidQ, ''normal'')]
   \<and> fst (process_exit demo_exited 0 [1, 0] demo_pidQ ''again'') = Some ErrProcessUnknown
   \<and> fst (process_exit demo_exited 0 [1, 0] demo_pidQ ''again'') \<noteq> Some ErrProcessBusy"
  by (simp add: process_exit_def ctx_err_def demo_exited_def demo_defs)

subsection \<open>Router\<close>




text \<open>
  Claim C4, as the code has it. For a sender of this node and a pid \<open>to\<close> that names this
  node with a creation other than the creation of the node, \<^verbatim>\<open>RouteSend\<close> returns
  \<^verbatim>\<open>ErrProcessIncarnation\<close> and delivers nothing.
\<close>

theorem stale_local_pid_rejected:
  "Node from = nodename c \<Longrightarrow> Node to = nodename c \<Longrightarrow> Creation to \<noteq> creation c \<Longrightarrow>
     RouteSend GetConnection c from to message = (Some ErrProcessIncarnation, c)"
  by (simp add: RouteSend_def)

theorem stale_local_pid_rejected_witness:
  "Node demo_pidP = nodename demo \<and> Node demo_stale = nodename demo
   \<and> Creation demo_stale \<noteq> creation demo
   \<and> RouteSend no_route demo demo_pidP demo_stale 42 = (Some ErrProcessIncarnation, demo)"
proof -
  have h1: "Node demo_pidP = nodename demo" by (simp add: demo_defs)
  have h2: "Node demo_stale = nodename demo" by (simp add: demo_stale_def demo_defs)
  have h3: "Creation demo_stale \<noteq> creation demo" by (simp add: demo_stale_def demo_defs)
  from stale_local_pid_rejected [OF h1 h2 h3, of no_route 42] h1 h2 h3
  show ?thesis by simp
qed

text \<open>
  The claim as stated covers every pid with another creation. A pid of another node
  takes the remote route, where the creation is not compared: sent by the live process
  P to a pid of \<open>other@localhost\<close> with creation 3, on a network without a route,
  \<^verbatim>\<open>RouteSend\<close> returns \<^verbatim>\<open>ErrNoRoute\<close>.
\<close>

theorem remote_pid_not_incarnation:
  "ProcessByPid demo demo_pidP = Some 0
   \<and> Creation demo_remote \<noteq> creation demo
   \<and> RouteSend no_route demo demo_pidP demo_remote 42 = (Some ErrNoRoute, demo)"
  by (simp add: RouteSend_def ProcessByPid_def IsAlive_def ctx_err_def no_route_def
      demo_remote_def demo_defs)

text \<open>
  Claim C2, as the code has it. When \<^verbatim>\<open>RouteSend\<close>, called for a sender of this node,
  addresses a local process whose mailbox is full, the message is dropped and the call returns at once with the error
  that carries the warning text and the two pids; the core is unchanged, so the
  messages queued earlier are all kept.
\<close>

theorem full_mailbox_returns_warning:
  "Node from = nodename c \<Longrightarrow> Node to = nodename c \<Longrightarrow> Creation to = creation c \<Longrightarrow>
   processes c (ID to) = Some p \<Longrightarrow> mailBox (heap c p) = Chan cap q \<Longrightarrow> cap \<le> length q \<Longrightarrow>
     RouteSend GetConnection c from to message
       = (Some (WarningMailboxFull (self (heap c p)) from), c)"
  by (simp add: RouteSend_def)

theorem full_mailbox_returns_warning_witness:
  "Node demo_pidQ = nodename demo_full \<and> Node demo_pidP = nodename demo_full
   \<and> Creation demo_pidP = creation demo_full
   \<and> processes demo_full (ID demo_pidP) = Some 0
   \<and> mailBox (heap demo_full 0) = Chan 1 [(demo_pidQ, 42)]
   \<and> RouteSend no_route demo_full demo_pidQ demo_pidP 43
       = (Some (WarningMailboxFull demo_pidP demo_pidQ), demo_full)"
proof -
  have h1: "Node demo_pidQ = nodename demo_full" by (simp add: demo_full_def demo_defs)
  have h2: "Node demo_pidP = nodename demo_full" by (simp add: demo_full_def demo_defs)
  have h3: "Creation demo_pidP = creation demo_full" by (simp add: demo_full_def demo_defs)
  have h4: "processes demo_full (ID demo_pidP) = Some 0" by (simp add: demo_full_def demo_defs)
  have h5: "mailBox (heap demo_full 0) = Chan 1 [(demo_pidQ, 42)]"
    by (simp add: demo_full_def demo_defs)
  have h6: "(1::nat) \<le> length [(demo_pidQ, 42::nat)]" by simp
  have s: "self (heap demo_full 0) = demo_pidP" by (simp add: demo_full_def demo_defs)
  from full_mailbox_returns_warning [OF h1 h2 h3 h4 h5 h6, of no_route 43] h1 h2 h3 h4 h5 s
  show ?thesis by simp
qed

text \<open>
  The claim as stated has the call return ok. With the mailbox of the live process P
  full, the call returns the warning as an error.
\<close>

theorem full_mailbox_not_ok:
  "ProcessByPid demo_full demo_pidP = Some 0
   \<and> mailBox (heap demo_full 0) = Chan 1 [(demo_pidQ, 42)]
   \<and> fst (RouteSend no_route demo_full demo_pidQ demo_pidP 43)
       = Some (WarningMailboxFull demo_pidP demo_pidQ)"
  by (simp add: RouteSend_def ProcessByPid_def IsAlive_def ctx_err_def demo_full_def demo_defs)

end
